theory Spec2Isabelle
  imports Main "HOL-Library.AList"
begin

section \<open>The verification server and the /pull command\<close>

text \<open>
  A shallow embedding of the combined server (Express back end and Discord bot): the
  handler of \<^verbatim>\<open>POST /api/auth/discord\<close>, the helpers \<^verbatim>\<open>assignVerifiedRole\<close>,
  \<^verbatim>\<open>sendToLogger\<close> and \<^verbatim>\<open>pullUserToGuild\<close>, and the \<^verbatim>\<open>/pull\<close> branch of the
  \<^verbatim>\<open>interactionCreate\<close> handler.

  The module-level \<^verbatim>\<open>userTokens\<close> map and the outbound HTTP requests are the state that
  is threaded through every function. What the outside world answers (the provider's
  responses, the clock) is an environment of oracles given to each handler run. Console
  output is not part of the state. The Discord interaction calls (\<^verbatim>\<open>reply\<close>,
  \<^verbatim>\<open>deferReply\<close>, \<^verbatim>\<open>editReply\<close>) are taken to succeed; the outer \<^verbatim>\<open>catch\<close> of the
  command handler is reached when the embed builder refuses the field made of the error
  lines, and that branch is part of the model.
\<close>

subsection \<open>JavaScript values\<close>

text \<open>A number that is either an integer or \<^verbatim>\<open>NaN\<close>; timestamps and indices are integers.\<close>

datatype jsnum = Num int | NaN

text \<open>\<^verbatim>\<open>a >= b\<close> with a an integer: any comparison with \<^verbatim>\<open>NaN\<close> is false.\<close>

fun js_ge :: "int \<Rightarrow> jsnum \<Rightarrow> bool" where
  "js_ge a (Num b) = (b \<le> a)"
| "js_ge a NaN = False"

text \<open>The value of a request-body property: absent, or one of the JSON values.\<close>

datatype jsvalue = JUndefined | JNull | JBool bool | JNumber int | JString string | JObject

fun truthy :: "jsvalue \<Rightarrow> bool" where
  "truthy JUndefined = False"
| "truthy JNull = False"
| "truthy (JBool b) = b"
| "truthy (JNumber n) = (n \<noteq> 0)"
| "truthy (JString s) = (s \<noteq> [])"
| "truthy JObject = True"

text \<open>
  A string-valued property that may be absent (\<open>None\<close>). \<^verbatim>\<open>x || d\<close> yields \<open>x\<close> when it
  is a non-empty string and \<open>d\<close> otherwise.
\<close>

definition truthy_str :: "string option \<Rightarrow> bool" where
  "truthy_str x = (case x of None \<Rightarrow> False | Some v \<Rightarrow> v \<noteq> [])"

definition or_else :: "string option \<Rightarrow> string \<Rightarrow> string" where
  "or_else x d = (case x of None \<Rightarrow> d | Some v \<Rightarrow> if v \<noteq> [] then v else d)"

text \<open>String conversion of such a property inside a template literal.\<close>

definition js_to_string :: "string option \<Rightarrow> string" where
  "js_to_string x = (case x of None \<Rightarrow> ''undefined'' | Some v \<Rightarrow> v)"

text \<open>The message of the TypeError thrown when a property of \<^verbatim>\<open>null\<close> is read.\<close>

definition null_property_error :: "string \<Rightarrow> string" where
  "null_property_error prop =
     ''Cannot read properties of null (reading '' @ [CHR 0x27] @ prop @ [CHR 0x27] @ '')''"

text \<open>
  String conversion of a natural number inside a template literal (decimal digits; the
  numbers converted here are far below the range of the exponent notation).
\<close>

fun nat_to_string :: "nat \<Rightarrow> string" where
  "nat_to_string n =
     (if n < 10 then [''0123456789'' ! n]
      else nat_to_string (n div 10) @ [''0123456789'' ! (n mod 10)])"

text \<open>\<^verbatim>\<open>Array.prototype.join\<close> on an array of strings.\<close>

fun join :: "string \<Rightarrow> string list \<Rightarrow> string" where
  "join sep [] = []"
| "join sep [x] = x"
| "join sep (x # y # ys) = x @ sep @ join sep (y # ys)"

subsection \<open>Outbound requests and their answers\<close>

text \<open>
  \<^verbatim>\<open>fetch\<close> either rejects (a network fault, with its message) or resolves to a response
  with a status, a status text and a body. \<^verbatim>\<open>response.ok\<close> is a status from 200 to 299.
\<close>

datatype 'b fetched = FetchError string | Response nat string 'b

definition response_ok :: "nat \<Rightarrow> bool" where
  "response_ok st = (200 \<le> st \<and> st \<le> 299)"

text \<open>
  What \<^verbatim>\<open>response.json()\<close> gives: a rejection (the body is not JSON), \<^verbatim>\<open>null\<close>, or an
  object whose properties are read afterwards.
\<close>

datatype 'a json = JsonThrows string | JsonNull | JsonValue 'a

text \<open>
  The body of a gateway error response, read as text and passed to \<^verbatim>\<open>JSON.parse\<close>:
  text that does not parse (\<^verbatim>\<open>errorData = { message: errorText }\<close>), a parsed value with its
  \<^verbatim>\<open>message\<close> property if any, or a parsed \<^verbatim>\<open>null\<close>.
\<close>

datatype error_body = PlainText string | JsonMessage "string option" | JsonNullBody

record tokenData_json =
  td_access_token :: "string option"
  td_refresh_token :: "string option"
  td_expires_in :: "int option"
  td_error_description :: "string option"
  td_error :: "string option"

record userData_json =
  ud_id :: string
  ud_username :: string
  ud_discriminator :: "string option"
  ud_email :: "string option"
  ud_avatar :: "string option"
  ud_verified :: bool

record user =
  u_id :: string
  u_username :: string
  u_discriminator :: "string option"
  u_email :: "string option"
  u_avatar :: string
  u_verified :: bool

datatype request =
    PostToken jsvalue
  | GetUsersMe string
  | PutMemberRole string
  | PostWebhook user
  | PutGuildMember string string

subsection \<open>Server state\<close>

text \<open>
  An entry of \<^verbatim>\<open>userTokens\<close>. The map keeps insertion order and unique keys, so it is an
  association list read with \<^const>\<open>map_of\<close> and written with \<^const>\<open>AList.update\<close>.
\<close>

record token_entry =
  access_token :: string
  refresh_token :: "string option"
  expires_at :: jsnum

record server_state =
  userTokens :: "(string \<times> token_entry) list"
  requests :: "request list"

definition issue :: "request \<Rightarrow> server_state \<Rightarrow> server_state" where
  "issue rq s = s\<lparr>requests := requests s @ [rq]\<rparr>"

subsection \<open>pullUserToGuild\<close>

text \<open>
  The environment of one run of the command: \<open>date_now k\<close> is what \<^verbatim>\<open>Date.now()\<close> reads in
  iteration \<open>k\<close> of the loop, \<open>put_guild_member k userId token\<close> what the gateway answers to
  the request of that iteration.
\<close>

record pull_env =
  date_now :: "nat \<Rightarrow> int"
  put_guild_member :: "nat \<Rightarrow> string \<Rightarrow> string \<Rightarrow> error_body fetched"

datatype pull_result = Added | AlreadyMember | Success

text \<open>The message of the error thrown for a response that is not ok.\<close>

definition pull_error_message :: "string \<Rightarrow> error_body \<Rightarrow> string" where
  "pull_error_message statusText b =
     (case b of
        PlainText errorText \<Rightarrow> or_else (Some errorText) (''Failed to pull user: '' @ statusText)
      | JsonMessage m \<Rightarrow> or_else m (''Failed to pull user: '' @ statusText)
      | JsonNullBody \<Rightarrow> null_property_error ''message'')"

text \<open>A thrown error is \<open>Inl\<close> of its message; the returned string is \<open>Inr\<close>.\<close>

definition pullUserToGuild ::
  "pull_env \<Rightarrow> nat \<Rightarrow> string \<Rightarrow> server_state \<Rightarrow> (string + pull_result) \<times> server_state" where
  "pullUserToGuild env k userId s =
     (case map_of (userTokens s) userId of
        None \<Rightarrow> (Inl ''No access token stored for this user'', s)
      | Some tokenData \<Rightarrow>
          if js_ge (date_now env k) (expires_at tokenData)
          then (Inl ''Access token expired'', s)
          else
            (case put_guild_member env k userId (access_token tokenData) of
               FetchError m \<Rightarrow>
                 (Inl m, issue (PutGuildMember userId (access_token tokenData)) s)
             | Response st statusText b \<Rightarrow>
                 (if \<not> response_ok st then Inl (pull_error_message statusText b)
                  else if st = 201 then Inr Added
                  else if st = 204 then Inr AlreadyMember
                  else Inr Success,
                  issue (PutGuildMember userId (access_token tokenData)) s)))"

subsection \<open>The /pull command\<close>

record results =
  r_total :: nat
  r_added :: nat
  r_already_member :: nat
  r_failed :: nat
  r_errors :: "string list"

definition AUTHORIZED_PULLER_ID :: string where
  "AUTHORIZED_PULLER_ID = ''1404732292412477531''"

definition error_line :: "string \<Rightarrow> string \<Rightarrow> string" where
  "error_line userId message = ''<@'' @ userId @ ''>: '' @ message"

text \<open>The \<^verbatim>\<open>for\<close> loop over \<^verbatim>\<open>storedUsers\<close>, with the number of the iteration.\<close>

fun pull_loop ::
  "pull_env \<Rightarrow> nat \<Rightarrow> string list \<Rightarrow> results \<times> server_state \<Rightarrow> results \<times> server_state" where
  "pull_loop env k [] rs = rs"
| "pull_loop env k (userId # rest) (res, s) =
     (case pullUserToGuild env k userId s of
        (Inr result, s') \<Rightarrow>
          pull_loop env (Suc k) rest
            (if result = Added then res\<lparr>r_added := r_added res + 1\<rparr>
             else if result = AlreadyMember
               then res\<lparr>r_already_member := r_already_member res + 1\<rparr>
             else res, s')
      | (Inl message, s') \<Rightarrow>
          pull_loop env (Suc k) rest
            (res\<lparr>r_failed := r_failed res + 1,
                 r_errors := r_errors res @ [error_line userId message]\<rparr>, s'))"

text \<open>
  The value of the field \<^verbatim>\<open>Errors\<close> of the embed: the first five lines joined by line
  feeds, then the number of lines left out, if any.
\<close>

definition errors_field :: "string list \<Rightarrow> string" where
  "errors_field errs =
     (let errorList = join [CHR 0x0A] (take 5 errs);
          moreErrors =
            (if length errs > 5
             then [CHR 0x0A] @ ''...and '' @ nat_to_string (length errs - 5) @ '' more''
             else [])
      in errorList @ moreErrors)"

text \<open>
  \<^verbatim>\<open>addFields\<close> of the embed builder of discord.js validates the field and throws unless
  its value has from 1 to 1024 characters. The characters of a model string stand for the
  UTF-16 units that \<^verbatim>\<open>length\<close> counts in the program.
\<close>

definition field_value_ok :: "string \<Rightarrow> bool" where
  "field_value_ok v = (1 \<le> length v \<and> length v \<le> 1024)"

text \<open>
  What the command answers: the refusal for any other user, the notice that nobody has
  verified yet, the embed built from the results, or, from the outer \<^verbatim>\<open>catch\<close>, the
  text saying that an error occurred while pulling users.
\<close>

datatype pull_reply = NotAuthorized | NoUsers | PullComplete results | PullError

definition pull_command :: "pull_env \<Rightarrow> server_state \<Rightarrow> string \<Rightarrow> pull_reply \<times> server_state" where
  "pull_command env s invoker =
     (if invoker \<noteq> AUTHORIZED_PULLER_ID then (NotAuthorized, s)
      else
        let storedUsers = map fst (userTokens s) in
        if length storedUsers = 0 then (NoUsers, s)
        else
          (case pull_loop env 0 storedUsers
                  (\<lparr>r_total = length storedUsers, r_added = 0, r_already_member = 0,
                    r_failed = 0, r_errors = []\<rparr>, s) of
             (res, s') \<Rightarrow>
               if length (r_errors res) > 0 \<and> \<not> field_value_ok (errors_field (r_errors res))
               then (PullError, s')
               else (PullComplete res, s')))"

subsection \<open>The avatar of the user object\<close>

text \<open>
  \<^verbatim>\<open>parseInt\<close> of a string with no radix given: leading ASCII white space is skipped, a sign is
  read, a \<^verbatim>\<open>0x\<close> prefix selects radix 16, and the longest run of digits of the radix is
  the value; with no digit the result is \<^verbatim>\<open>NaN\<close>. The value is the exact integer, as
  the double is for values below \<open>2 ^ 53\<close>, that is for every string of at most 15 digits;
  beyond that the program rounds and the model does not. The white space skipped is the
  six ASCII characters; the other Unicode white space that the program skips too is not
  modelled.
\<close>

definition is_space :: "char \<Rightarrow> bool" where
  "is_space c = (c \<in> set [CHR 0x09, CHR 0x0A, CHR 0x0B, CHR 0x0C, CHR 0x0D, CHR '' ''])"

definition digit_value :: "char \<Rightarrow> nat option" where
  "digit_value c =
     (let n = (of_char c :: nat) in
      if 48 \<le> n \<and> n \<le> 57 then Some (n - 48)
      else if 97 \<le> n \<and> n \<le> 122 then Some (n - 87)
      else if 65 \<le> n \<and> n \<le> 90 then Some (n - 55)
      else None)"

definition radix_digit :: "nat \<Rightarrow> char \<Rightarrow> bool" where
  "radix_digit radix c = (case digit_value c of None \<Rightarrow> False | Some d \<Rightarrow> d < radix)"

definition digits_value :: "nat \<Rightarrow> string \<Rightarrow> nat" where
  "digits_value radix z =
     foldl (\<lambda>acc c. acc * radix + (case digit_value c of None \<Rightarrow> 0 | Some d \<Rightarrow> d)) 0 z"

definition parseInt :: "string \<Rightarrow> jsnum" where
  "parseInt str =
     (let s0 = dropWhile is_space str;
          (sign, s1) =
            (case s0 of
               [] \<Rightarrow> (1, s0)
             | c # r \<Rightarrow> if c = CHR ''-'' then (- 1, r) else if c = CHR ''+'' then (1, r) else (1, s0));
          (radix, s2) =
            (case s1 of
               a # b # r \<Rightarrow>
                 if a = CHR ''0'' \<and> (b = CHR ''x'' \<or> b = CHR ''X'') then (16, r) else (10, s1)
             | _ \<Rightarrow> (10, s1));
          z = takeWhile (radix_digit radix) s2
      in if z = [] then NaN else Num (sign * int (digits_value radix z)))"

text \<open>\<^verbatim>\<open>a % b\<close> for a positive integer b: the sign of the result is that of a.\<close>

fun js_rem :: "jsnum \<Rightarrow> int \<Rightarrow> jsnum" where
  "js_rem NaN b = NaN"
| "js_rem (Num a) b = Num (if a < 0 then - ((- a) mod b) else a mod b)"

text \<open>String conversion of a number that is an integer or \<^verbatim>\<open>NaN\<close>.\<close>

fun js_num_to_string :: "jsnum \<Rightarrow> string" where
  "js_num_to_string NaN = ''NaN''"
| "js_num_to_string (Num n) =
     (if n < 0 then ''-'' @ nat_to_string (nat (- n)) else nat_to_string (nat n))"

text \<open>The \<^verbatim>\<open>avatar\<close> property of the \<^verbatim>\<open>user\<close> object built from \<^verbatim>\<open>userData\<close>.\<close>

definition avatar_url :: "userData_json \<Rightarrow> string" where
  "avatar_url userData =
     (if truthy_str (ud_avatar userData)
      then ''https://cdn.discordapp.com/avatars/'' @ ud_id userData @ ''/''
             @ js_to_string (ud_avatar userData) @ ''.png''
      else ''https://cdn.discordapp.com/embed/avatars/''
             @ js_num_to_string (js_rem (parseInt (js_to_string (ud_discriminator userData))) 5)
             @ ''.png'')"

subsection \<open>assignVerifiedRole and sendToLogger\<close>

text \<open>
  The environment of one request to the endpoint: the clock, the provider's answers to
  the token exchange (by code) and to the profile request (by Authorization header), the
  gateway's answer to the role request, and the webhook with its configured address.
\<close>

record auth_env =
  auth_now :: int
  post_token :: "jsvalue \<Rightarrow> tokenData_json json fetched"
  get_users_me :: "string \<Rightarrow> userData_json json fetched"
  put_member_role :: "string \<Rightarrow> error_body fetched"
  WEBHOOK_URL :: "string option"
  post_webhook :: "user \<Rightarrow> error_body fetched"

definition role_error_message :: "nat \<Rightarrow> string \<Rightarrow> error_body \<Rightarrow> string" where
  "role_error_message st statusText b =
     (if st = 404 then ''User is not in the Discord server''
      else if st = 403 then ''Bot lacks permission to assign roles''
      else if st = 401 then ''Bot token is invalid''
      else
        (case b of
           PlainText errorText \<Rightarrow> ''Failed to assign role: '' @ or_else (Some errorText) statusText
         | JsonMessage m \<Rightarrow> ''Failed to assign role: '' @ or_else m statusText
         | JsonNullBody \<Rightarrow> null_property_error ''message''))"

definition assignVerifiedRole ::
  "auth_env \<Rightarrow> string \<Rightarrow> server_state \<Rightarrow> (string + unit) \<times> server_state" where
  "assignVerifiedRole env userId s =
     (case put_member_role env userId of
        FetchError m \<Rightarrow> Inl m
      | Response st statusText b \<Rightarrow>
          if \<not> response_ok st then Inl (role_error_message st statusText b) else Inr (),
      issue (PutMemberRole userId) s)"

definition sendToLogger ::
  "auth_env \<Rightarrow> user \<Rightarrow> server_state \<Rightarrow> (string + unit) \<times> server_state" where
  "sendToLogger env usr s =
     (if \<not> truthy_str (WEBHOOK_URL env) then (Inr (), s)
      else
        (case post_webhook env usr of
           FetchError m \<Rightarrow> Inl m
         | Response st statusText b \<Rightarrow> Inr (),
         issue (PostWebhook usr) s))"

subsection \<open>POST /api/auth/discord\<close>

text \<open>
  The answer of the endpoint: a status with either \<^verbatim>\<open>{ success: false, error }\<close> or
  \<^verbatim>\<open>{ success: true, user: { id, username, avatar, email } }\<close>.
\<close>

record user_summary =
  s_id :: string
  s_username :: string
  s_avatar :: string
  s_email :: "string option"

datatype auth_body = Failure string | Verified user_summary

datatype http_response = Res nat auth_body

text \<open>The outer \<^verbatim>\<open>catch\<close> of the handler.\<close>

definition internal_error :: "string \<Rightarrow> http_response" where
  "internal_error m =
     Res 500 (Failure (or_else (Some m) ''Internal server error during authentication''))"

text \<open>
  From the user object on: the token is stored when \<^verbatim>\<open>tokenData.access_token\<close> is
  truthy, the two detached tasks are started and their rejections are caught and dropped,
  and the response is sent. The expiry stored is the exact integer, as the double is for
  values below \<open>2 ^ 53\<close>.
\<close>

definition auth_complete ::
  "auth_env \<Rightarrow> tokenData_json \<Rightarrow> userData_json \<Rightarrow> server_state \<Rightarrow> http_response \<times> server_state" where
  "auth_complete env tokenData userData s2 =
     (let usr = \<lparr>u_id = ud_id userData, u_username = ud_username userData,
                 u_discriminator = ud_discriminator userData, u_email = ud_email userData,
                 u_avatar = avatar_url userData, u_verified = ud_verified userData\<rparr>;
          s3 = (case td_access_token tokenData of
                  None \<Rightarrow> s2
                | Some tok \<Rightarrow>
                    if tok \<noteq> [] then
                      s2\<lparr>userTokens :=
                           AList.update (u_id usr)
                             \<lparr>access_token = tok,
                              refresh_token = td_refresh_token tokenData,
                              expires_at =
                                (case td_expires_in tokenData of
                                   None \<Rightarrow> NaN
                                 | Some n \<Rightarrow> Num (auth_now env + n * 1000))\<rparr>
                             (userTokens s2)\<rparr>
                    else s2);
          s4 = snd (assignVerifiedRole env (u_id usr) s3);
          s5 = snd (sendToLogger env usr s4)
      in (Res 200 (Verified \<lparr>s_id = u_id usr, s_username = u_username usr,
                             s_avatar = u_avatar usr, s_email = u_email usr\<rparr>), s5))"

text \<open>Step 2, the profile request with the access token just obtained.\<close>

definition auth_fetch_user ::
  "auth_env \<Rightarrow> tokenData_json \<Rightarrow> server_state \<Rightarrow> http_response \<times> server_state" where
  "auth_fetch_user env tokenData s1 =
     (let authorization = ''Bearer '' @ js_to_string (td_access_token tokenData);
          s2 = issue (GetUsersMe authorization) s1
      in case get_users_me env authorization of
           FetchError m \<Rightarrow> (internal_error m, s2)
         | Response st statusText body \<Rightarrow>
             (case body of
                JsonThrows m \<Rightarrow> (internal_error m, s2)
              | JsonNull \<Rightarrow>
                  if \<not> response_ok st
                  then (Res 400 (Failure ''Failed to fetch Discord user data''), s2)
                  else (internal_error (null_property_error ''username''), s2)
              | JsonValue userData \<Rightarrow>
                  if \<not> response_ok st
                  then (Res 400 (Failure ''Failed to fetch Discord user data''), s2)
                  else auth_complete env tokenData userData s2))"

text \<open>The handler: the guard on the code, then step 1, the token exchange.\<close>

definition auth_discord ::
  "auth_env \<Rightarrow> jsvalue \<Rightarrow> server_state \<Rightarrow> http_response \<times> server_state" where
  "auth_discord env code s =
     (if \<not> truthy code then (Res 400 (Failure ''No authorization code provided''), s)
      else
        let s1 = issue (PostToken code) s
        in case post_token env code of
             FetchError m \<Rightarrow> (internal_error m, s1)
           | Response st statusText body \<Rightarrow>
               (case body of
                  JsonThrows m \<Rightarrow> (internal_error m, s1)
                | JsonNull \<Rightarrow>
                    (internal_error
                       (null_property_error
                          (if response_ok st then ''access_token'' else ''error_description'')), s1)
                | JsonValue tokenData \<Rightarrow>
                    if \<not> response_ok st
                    then (Res 400 (Failure
                            (or_else (td_error_description tokenData)
                               (or_else (td_error tokenData)
                                  ''Failed to exchange authorization code''))), s1)
                    else auth_fetch_user env tokenData s1))"

section \<open>Notions used to state the properties\<close>

text \<open>
  What \<^const>\<open>pullUserToGuild\<close> gives for every identity of a snapshot, in the order of the
  snapshot, each with the number of its iteration.
\<close>

definition outcomes ::
  "pull_env \<Rightarrow> nat \<Rightarrow> string list \<Rightarrow> server_state \<Rightarrow> (string \<times> (string + pull_result)) list" where
  "outcomes env k users s =
     map (\<lambda>(j, userId). (userId, fst (pullUserToGuild env j userId s))) (enumerate k users)"

text \<open>The counters and the error list that a list of outcomes adds to given results.\<close>

definition tally :: "results \<Rightarrow> (string \<times> (string + pull_result)) list \<Rightarrow> results" where
  "tally res os =
     res\<lparr>r_added := r_added res + length (filter (\<lambda>x. snd x = Inr Added) os),
         r_already_member :=
           r_already_member res + length (filter (\<lambda>x. snd x = Inr AlreadyMember) os),
         r_failed := r_failed res + length (filter (\<lambda>x. isl (snd x)) os),
         r_errors :=
           r_errors res
             @ map (\<lambda>x. error_line (fst x) (projl (snd x))) (filter (\<lambda>x. isl (snd x)) os)\<rparr>"







text \<open>
  The number that a string of decimal digits denotes, leading zeros allowed: the last
  character is the units digit.
\<close>

primrec decimal_rev :: "string \<Rightarrow> nat" where
  "decimal_rev [] = 0"
| "decimal_rev (c # cs) = (of_char c - 48) + 10 * decimal_rev cs"

definition decimal :: "string \<Rightarrow> nat" where
  "decimal ds = decimal_rev (rev ds)"

definition is_decimal :: "string \<Rightarrow> bool" where
  "is_decimal ds = (ds \<noteq> [] \<and> list_all (\<lambda>c. c \<in> set ''0123456789'') ds)"

section \<open>The /pull command: properties\<close>

subsection \<open>The store is only read\<close>

lemma pullUserToGuild_userTokens:
  "userTokens (snd (pullUserToGuild env k userId s)) = userTokens s"
  by (simp add: pullUserToGuild_def issue_def split: option.split fetched.split)

lemma pullUserToGuild_outcome_cong:
  "userTokens s = userTokens t \<Longrightarrow>
     fst (pullUserToGuild env k userId s) = fst (pullUserToGuild env k userId t)"
  by (simp add: pullUserToGuild_def split: option.split fetched.split)

lemma pull_loop_userTokens:
  "userTokens (snd (pull_loop env k users (res, s))) = userTokens s"
proof (induction users arbitrary: k res s)
  case Nil
  show ?case by simp
next
  case (Cons u us)
  obtain out s' where step: "pullUserToGuild env k u s = (out, s')"
    by (cases "pullUserToGuild env k u s")
  have "userTokens s' = userTokens s"
    using pullUserToGuild_userTokens [of env k u s] step by simp
  with Cons step show ?case
    by (cases out) simp_all
qed

text \<open>
  C9. A run of the command never modifies the grant store: whoever invokes it and
  whatever the clock and the gateway do, \<^verbatim>\<open>userTokens\<close> after the run is \<^verbatim>\<open>userTokens\<close>
  before it, entry by entry, expired grants and grants whose gateway call failed included.
\<close>

theorem pull_command_keeps_userTokens:
  "userTokens (snd (pull_command env s invoker)) = userTokens s"
proof (cases "invoker = AUTHORIZED_PULLER_ID \<and> userTokens s \<noteq> []")
  case False
  then show ?thesis by (auto simp: pull_command_def)
next
  case True
  let ?init = "\<lparr>r_total = length (map fst (userTokens s)), r_added = 0, r_already_member = 0,
                 r_failed = 0, r_errors = []\<rparr>"
  obtain res s' where run: "pull_loop env 0 (map fst (userTokens s)) (?init, s) = (res, s')"
    by (cases "pull_loop env 0 (map fst (userTokens s)) (?init, s)")
  have "userTokens s' = userTokens s"
    using pull_loop_userTokens [of env 0 "map fst (userTokens s)" ?init s] run by simp
  with True run show ?thesis by (simp add: pull_command_def)
qed

subsection \<open>Every identity of the snapshot is processed\<close>

lemma outcomes_cong:
  "userTokens s = userTokens t \<Longrightarrow> outcomes env k users s = outcomes env k users t"
  by (simp add: outcomes_def pullUserToGuild_outcome_cong [of s t])

lemma outcomes_Nil: "outcomes env k [] s = []"
  by (simp add: outcomes_def)

lemma outcomes_Cons:
  "outcomes env k (u # us) s = (u, fst (pullUserToGuild env k u s)) # outcomes env (Suc k) us s"
  by (simp add: outcomes_def)

lemma pull_loop_results:
  "fst (pull_loop env k users (res, s)) = tally res (outcomes env k users s)"
proof (induction users arbitrary: k res s)
  case Nil
  show ?case by (simp add: outcomes_Nil tally_def)
next
  case (Cons u us)
  obtain out s' where step: "pullUserToGuild env k u s = (out, s')"
    by (cases "pullUserToGuild env k u s")
  have "userTokens s' = userTokens s"
    using pullUserToGuild_userTokens [of env k u s] step by simp
  then have os: "outcomes env (Suc k) us s' = outcomes env (Suc k) us s"
    by (rule outcomes_cong)
  show ?case
  proof (cases out)
    case (Inl m)
    with Cons step os show ?thesis
      by (simp add: outcomes_Cons tally_def)
  next
    case (Inr r)
    with Cons step os show ?thesis
      by (cases r) (simp_all add: outcomes_Cons tally_def)
  qed
qed





text \<open>
  The branch of the outer \<^verbatim>\<open>catch\<close>: one identity whose gateway call throws with a
  message of 1100 characters. The request has been issued and the loop has ended, and the
  answer is the error text.
\<close>

lemma pull_command_errors_field_too_long:
  "pull_command
     \<lparr>date_now = \<lambda>k. 1000,
      put_guild_member = \<lambda>k userId tok. FetchError (replicate 1100 (CHR ''x''))\<rparr>
     \<lparr>userTokens =
        [(''1'', \<lparr>access_token = ''a'', refresh_token = None, expires_at = Num 2000\<rparr>)],
      requests = []\<rparr>
     AUTHORIZED_PULLER_ID =
   (PullError,
    \<lparr>userTokens =
       [(''1'', \<lparr>access_token = ''a'', refresh_token = None, expires_at = Num 2000\<rparr>)],
     requests = [PutGuildMember ''1'' ''a'']\<rparr>)"
  by (simp add: pull_command_def pullUserToGuild_def issue_def error_line_def errors_field_def
        field_value_ok_def)

subsection \<open>Expired grants\<close>

text \<open>
  C2. A stored grant whose \<^verbatim>\<open>expires_at\<close> is at or before the clock is rejected by
  \<^verbatim>\<open>pullUserToGuild\<close> with the message saying so and with the state as it was, so that no
  request has been issued for it; in the loop, at whatever iteration and with whatever
  results so far, the identity is counted in \<^verbatim>\<open>failed\<close>, its line is appended to
  \<^verbatim>\<open>errors\<close>, and the loop goes on with the remaining identities.
\<close>

theorem expired_grant_rejected_locally:
  assumes "map_of (userTokens s) userId = Some tokenData"
    and "expires_at tokenData = Num e"
    and "e \<le> date_now env k"
  shows "pullUserToGuild env k userId s = (Inl ''Access token expired'', s) \<and>
         pull_loop env k (userId # rest) (res, s) =
           pull_loop env (Suc k) rest
             (res\<lparr>r_failed := r_failed res + 1,
                  r_errors := r_errors res @ [''<@'' @ userId @ ''>: Access token expired'']\<rparr>, s)"
  using assms by (simp add: pullUserToGuild_def error_line_def)

text \<open>
  A grant that expires at the very instant of the check and a later one: only the second
  identity reaches the gateway.
\<close>

theorem expired_grant_rejected_locally_witness:
  "pull_command
     \<lparr>date_now = \<lambda>k. 5000,
      put_guild_member = \<lambda>k userId tok. Response 201 ''Created'' (PlainText [])\<rparr>
     \<lparr>userTokens =
        [(''7'', \<lparr>access_token = ''old'', refresh_token = None, expires_at = Num 5000\<rparr>),
         (''8'', \<lparr>access_token = ''new'', refresh_token = None, expires_at = Num 9000\<rparr>)],
      requests = []\<rparr>
     AUTHORIZED_PULLER_ID =
   (PullComplete \<lparr>r_total = 2, r_added = 1, r_already_member = 0, r_failed = 1,
                  r_errors = [''<@7>: Access token expired'']\<rparr>,
    \<lparr>userTokens =
       [(''7'', \<lparr>access_token = ''old'', refresh_token = None, expires_at = Num 5000\<rparr>),
        (''8'', \<lparr>access_token = ''new'', refresh_token = None, expires_at = Num 9000\<rparr>)],
     requests = [PutGuildMember ''8'' ''new'']\<rparr>)"
proof -
  let ?env = "\<lparr>date_now = \<lambda>k. 5000,
               put_guild_member = \<lambda>k userId tok. Response 201 ''Created'' (PlainText [])\<rparr>"
  let ?old = "\<lparr>access_token = ''old'', refresh_token = None, expires_at = Num 5000\<rparr>"
  let ?s = "\<lparr>userTokens =
               [(''7'', ?old),
                (''8'', \<lparr>access_token = ''new'', refresh_token = None, expires_at = Num 9000\<rparr>)],
             requests = []\<rparr>"
  have a: "map_of (userTokens ?s) ''7'' = Some ?old" by simp
  have b: "expires_at ?old = Num 5000" by simp
  have c: "(5000::int) \<le> date_now ?env 0" by simp
  show ?thesis
    using expired_grant_rejected_locally [OF a b c, of "[''8'']"]
    by (simp add: pull_command_def pullUserToGuild_def response_ok_def issue_def error_line_def
          errors_field_def field_value_ok_def)
qed

subsection \<open>The counters and the total\<close>

text \<open>
  C1. One stored identity with a grant that has not expired, and a gateway that answers
  200: \<^verbatim>\<open>pullUserToGuild\<close> returns \<^verbatim>\<open>'success'\<close>, which the loop counts nowhere, and the
  results have a total of 1 with \<^verbatim>\<open>added\<close>, \<^verbatim>\<open>already_member\<close> and \<^verbatim>\<open>failed\<close> all 0.
\<close>

theorem pull_command_status_200_uncounted:
  "pull_command
     \<lparr>date_now = \<lambda>k. 1000,
      put_guild_member = \<lambda>k userId tok. Response 200 ''OK'' (PlainText [])\<rparr>
     \<lparr>userTokens =
        [(''42'', \<lparr>access_token = ''tok'', refresh_token = Some ''ref'', expires_at = Num 2000\<rparr>)],
      requests = []\<rparr>
     AUTHORIZED_PULLER_ID =
   (PullComplete
      \<lparr>r_total = 1, r_added = 0, r_already_member = 0, r_failed = 0, r_errors = []\<rparr>,
    \<lparr>userTokens =
       [(''42'', \<lparr>access_token = ''tok'', refresh_token = Some ''ref'', expires_at = Num 2000\<rparr>)],
     requests = [PutGuildMember ''42'' ''tok'']\<rparr>)"
  by (simp add: pull_command_def pullUserToGuild_def response_ok_def issue_def)

text \<open>
  What does hold for every run that answers with results: each identity of the snapshot
  falls into exactly one of four classes, and the total is the sum of the three counters
  and of the number of identities for which \<^verbatim>\<open>pullUserToGuild\<close> returned
  \<^verbatim>\<open>'success'\<close>.
\<close>

lemma outcomes_classes:
  "length os =
     length (filter (\<lambda>x. snd x = Inr Added) os)
     + length (filter (\<lambda>x. snd x = Inr AlreadyMember) os)
     + length (filter (\<lambda>x. isl (snd x)) os)
     + length (filter (\<lambda>x. snd x = Inr Success) (os :: (string \<times> (string + pull_result)) list))"
proof (induction os)
  case Nil
  show ?case by simp
next
  case (Cons x os)
  show ?case
  proof (cases "snd x")
    case (Inl m)
    with Cons show ?thesis by simp
  next
    case (Inr r)
    with Cons show ?thesis by (cases r) simp_all
  qed
qed

lemma pull_command_accounting:
  assumes "pull_command env s invoker = (PullComplete res, s')"
  shows "r_total res =
           r_added res + r_already_member res + r_failed res
           + length (filter (\<lambda>x. snd x = Inr Success)
               (outcomes env 0 (map fst (userTokens s)) s))"
proof -
  let ?users = "map fst (userTokens s)"
  let ?init = "\<lparr>r_total = length ?users, r_added = 0, r_already_member = 0,
                 r_failed = 0, r_errors = []\<rparr>"
  from assms have run: "fst (pull_loop env 0 ?users (?init, s)) = res"
    by (auto simp: pull_command_def Let_def split: if_splits prod.splits)
  have res: "res = tally ?init (outcomes env 0 ?users s)"
    using pull_loop_results [of env 0 ?users ?init s] run by simp
  have len: "length (outcomes env 0 ?users s) = length ?users"
    by (simp add: outcomes_def)
  show ?thesis
    using outcomes_classes [of "outcomes env 0 ?users s"] len
    by (simp add: res tally_def)
qed

subsection \<open>The empty store\<close>

text \<open>
  C8, as the claim states it, fails: with an empty store the command does not answer with
  results in which every counter is 0.
\<close>

theorem pull_command_empty_store_no_results:
  "fst (pull_command
     \<lparr>date_now = \<lambda>k. 0, put_guild_member = \<lambda>k userId tok. FetchError ''unreachable''\<rparr>
     \<lparr>userTokens = [], requests = []\<rparr> AUTHORIZED_PULLER_ID) \<noteq>
   PullComplete \<lparr>r_total = 0, r_added = 0, r_already_member = 0, r_failed = 0, r_errors = []\<rparr>"
  by (simp add: pull_command_def)

text \<open>
  C8, amended. When the store holds no identity, the command run by the authorised user
  answers at once with the notice that nobody has verified yet, which is neither results
  nor an error, and leaves the state as it was: no request is issued.
\<close>

theorem pull_command_empty_store_notice:
  assumes "invoker = AUTHORIZED_PULLER_ID" and "userTokens s = []"
  shows "pull_command env s invoker = (NoUsers, s)"
  using assms by (simp add: pull_command_def)

theorem pull_command_empty_store_notice_witness:
  "pull_command
     \<lparr>date_now = \<lambda>k. 0, put_guild_member = \<lambda>k userId tok. FetchError ''unreachable''\<rparr>
     \<lparr>userTokens = [], requests = []\<rparr> AUTHORIZED_PULLER_ID =
   (NoUsers, \<lparr>userTokens = [], requests = []\<rparr>)"
  using pull_command_empty_store_notice
    [of AUTHORIZED_PULLER_ID "\<lparr>userTokens = [], requests = []\<rparr>"]
  by simp


section \<open>The avatar: properties\<close>

lemma digit_char_value:
  "c \<in> set ''0123456789'' \<Longrightarrow>
     digit_value c = Some (of_char c - 48) \<and> (of_char c :: nat) - 48 < 10"
  by (auto simp: digit_value_def)

lemma radix_digit_decimal: "c \<in> set ''0123456789'' \<Longrightarrow> radix_digit 10 c"
  using digit_char_value [of c] by (simp add: radix_digit_def)

lemma not_space_decimal: "c \<in> set ''0123456789'' \<Longrightarrow> \<not> is_space c"
  by (auto simp: is_space_def)

lemma digits_value_snoc:
  "digits_value r (z @ [c]) =
     digits_value r z * r + (case digit_value c of None \<Rightarrow> 0 | Some d \<Rightarrow> d)"
  by (simp add: digits_value_def)

lemma digits_value_decimal:
  "list_all (\<lambda>c. c \<in> set ''0123456789'') ds \<Longrightarrow> digits_value 10 ds = decimal ds"
proof (induction ds rule: rev_induct)
  case Nil
  show ?case by (simp add: digits_value_def decimal_def)
next
  case (snoc c ds)
  then have c: "c \<in> set ''0123456789''" and ds: "list_all (\<lambda>c. c \<in> set ''0123456789'') ds"
    by simp_all
  have "digit_value c = Some (of_char c - 48)"
    using digit_char_value [OF c] by simp
  with snoc.IH [OF ds] show ?case
    by (simp add: digits_value_snoc decimal_def)
qed

text \<open>On a string of decimal digits \<^const>\<open>parseInt\<close> reads the whole string in radix 10.\<close>

lemma parseInt_decimal:
  assumes "is_decimal ds"
  shows "parseInt ds = Num (int (decimal ds))"
proof -
  from assms obtain c cs where ds: "ds = c # cs"
    by (cases ds) (simp_all add: is_decimal_def)
  from assms have all: "list_all (\<lambda>c. c \<in> set ''0123456789'') ds"
    by (simp add: is_decimal_def)
  then have c: "c \<in> set ''0123456789''"
    by (simp add: ds)
  have sp: "\<not> is_space c"
    by (rule not_space_decimal [OF c])
  have sign: "c \<noteq> CHR ''-''" "c \<noteq> CHR ''+''"
    using c by auto
  have "\<forall>x\<in>set ds. radix_digit 10 x"
    using all by (simp add: list_all_iff radix_digit_decimal)
  then have take: "takeWhile (radix_digit 10) ds = ds"
    by simp
  have val: "digits_value 10 ds = decimal ds"
    by (rule digits_value_decimal [OF all])
  have prefix:
    "(case ds of
        a # b # r \<Rightarrow>
          if a = CHR ''0'' \<and> (b = CHR ''x'' \<or> b = CHR ''X'') then (16::nat, r) else (10, ds)
      | _ \<Rightarrow> (10, ds)) = (10, ds)"
  proof (cases cs)
    case Nil
    then show ?thesis by (simp add: ds)
  next
    case (Cons b r)
    with all have "b \<in> set ''0123456789''"
      by (simp add: ds)
    then have "b \<noteq> CHR ''x''" and "b \<noteq> CHR ''X''"
      by auto
    with Cons show ?thesis by (simp add: ds)
  qed
  have drop: "dropWhile is_space ds = ds"
    using sp by (simp add: ds)
  have signcase:
    "(case ds of
        [] \<Rightarrow> (1::int, ds)
      | c # r \<Rightarrow> if c = CHR ''-'' then (- 1, r) else if c = CHR ''+'' then (1, r) else (1, ds)) =
     (1, ds)"
    using sign by (simp add: ds)
  have nonempty: "ds \<noteq> []"
    by (simp add: ds)
  show ?thesis
    by (simp add: parseInt_def drop signcase prefix take val nonempty)
qed

text \<open>
  C6, as the claim states it, fails for a profile with neither an avatar nor a
  discriminator: \<^verbatim>\<open>parseInt(undefined) % 5\<close> is \<^verbatim>\<open>NaN\<close>, and the address ends in
  \<^verbatim>\<open>NaN.png\<close>, not in \<^verbatim>\<open>0.png\<close>.
\<close>

theorem avatar_url_without_discriminator:
  "avatar_url \<lparr>ud_id = ''42'', ud_username = ''ann'', ud_discriminator = None,
               ud_email = None, ud_avatar = None, ud_verified = True\<rparr> =
     ''https://cdn.discordapp.com/embed/avatars/NaN.png'' \<and>
   avatar_url \<lparr>ud_id = ''42'', ud_username = ''ann'', ud_discriminator = None,
               ud_email = None, ud_avatar = None, ud_verified = True\<rparr> \<noteq>
     ''https://cdn.discordapp.com/embed/avatars/0.png''"
  by (simp add: avatar_url_def truthy_str_def js_to_string_def parseInt_def is_space_def
        radix_digit_def digit_value_def)

text \<open>
  C6, amended. A profile with a non-empty avatar asset identifier gets the CDN address
  made of its id and of the asset identifier. A profile without one, whose discriminator is
  a string of at most 15 decimal digits, gets the default avatar whose index is the number
  the discriminator denotes, modulo 5: index 4 for \<^verbatim>\<open>"1234"\<close>, index 0 for the
  discriminator \<^verbatim>\<open>"0"\<close>.
\<close>

theorem avatar_url_derivation:
  "(ud_avatar userData = Some asset \<and> asset \<noteq> [] \<longrightarrow>
      avatar_url userData =
        ''https://cdn.discordapp.com/avatars/'' @ ud_id userData @ ''/'' @ asset @ ''.png'') \<and>
   (\<not> truthy_str (ud_avatar userData) \<and> ud_discriminator userData = Some ds \<and>
      is_decimal ds \<and> length ds \<le> 15 \<longrightarrow>
      avatar_url userData =
        ''https://cdn.discordapp.com/embed/avatars/'' @ nat_to_string (decimal ds mod 5)
          @ ''.png'')"
proof (intro conjI impI)
  assume "ud_avatar userData = Some asset \<and> asset \<noteq> []"
  then show "avatar_url userData =
        ''https://cdn.discordapp.com/avatars/'' @ ud_id userData @ ''/'' @ asset @ ''.png''"
    by (simp add: avatar_url_def truthy_str_def js_to_string_def)
next
  assume a: "\<not> truthy_str (ud_avatar userData) \<and> ud_discriminator userData = Some ds \<and>
      is_decimal ds \<and> length ds \<le> 15"
  then have "parseInt (js_to_string (ud_discriminator userData)) = Num (int (decimal ds))"
    using parseInt_decimal [of ds] by (simp add: js_to_string_def)
  moreover have "int (decimal ds) mod 5 = int (decimal ds mod 5)"
    by (simp add: zmod_int)
  ultimately show "avatar_url userData =
        ''https://cdn.discordapp.com/embed/avatars/'' @ nat_to_string (decimal ds mod 5)
          @ ''.png''"
    using a by (simp add: avatar_url_def del: nat_to_string.simps)
qed

theorem avatar_url_derivation_witness:
  "avatar_url \<lparr>ud_id = ''42'', ud_username = ''ann'', ud_discriminator = Some ''1234'',
               ud_email = None, ud_avatar = Some ''abc'', ud_verified = True\<rparr> =
     ''https://cdn.discordapp.com/avatars/42/abc.png'' \<and>
   avatar_url \<lparr>ud_id = ''42'', ud_username = ''ann'', ud_discriminator = Some ''1234'',
               ud_email = None, ud_avatar = None, ud_verified = True\<rparr> =
     ''https://cdn.discordapp.com/embed/avatars/4.png'' \<and>
   avatar_url \<lparr>ud_id = ''42'', ud_username = ''ann'', ud_discriminator = Some ''0'',
               ud_email = None, ud_avatar = None, ud_verified = True\<rparr> =
     ''https://cdn.discordapp.com/embed/avatars/0.png''"
  using avatar_url_derivation
      [of "\<lparr>ud_id = ''42'', ud_username = ''ann'', ud_discriminator = Some ''1234'',
             ud_email = None, ud_avatar = Some ''abc'', ud_verified = True\<rparr>" "''abc''" "''1234''"]
    avatar_url_derivation
      [of "\<lparr>ud_id = ''42'', ud_username = ''ann'', ud_discriminator = Some ''1234'',
             ud_email = None, ud_avatar = None, ud_verified = True\<rparr>" "''abc''" "''1234''"]
    avatar_url_derivation
      [of "\<lparr>ud_id = ''42'', ud_username = ''ann'', ud_discriminator = Some ''0'',
             ud_email = None, ud_avatar = None, ud_verified = True\<rparr>" "''abc''" "''0''"]
  by (simp add: truthy_str_def is_decimal_def decimal_def)

section \<open>POST /api/auth/discord: properties\<close>

lemma assignVerifiedRole_userTokens:
  "userTokens (snd (assignVerifiedRole env userId s)) = userTokens s"
  by (simp add: assignVerifiedRole_def issue_def)

lemma sendToLogger_userTokens:
  "userTokens (snd (sendToLogger env usr s)) = userTokens s"
  by (simp add: sendToLogger_def issue_def)

text \<open>
  Once the user object is built the response is fixed: it is made of the profile alone,
  and neither the token data nor the two detached tasks have a part in it.
\<close>

lemma auth_complete_response:
  "fst (auth_complete env tokenData userData s) =
     Res 200 (Verified \<lparr>s_id = ud_id userData, s_username = ud_username userData,
                        s_avatar = avatar_url userData, s_email = ud_email userData\<rparr>)"
  by (simp add: auth_complete_def Let_def)

lemma auth_complete_userTokens:
  "userTokens (snd (auth_complete env tokenData userData s)) =
     (case td_access_token tokenData of
        None \<Rightarrow> userTokens s
      | Some tok \<Rightarrow>
          if tok \<noteq> [] then
            AList.update (ud_id userData)
              \<lparr>access_token = tok, refresh_token = td_refresh_token tokenData,
               expires_at = (case td_expires_in tokenData of
                               None \<Rightarrow> NaN | Some n \<Rightarrow> Num (auth_now env + n * 1000))\<rparr>
              (userTokens s)
          else userTokens s)"
  by (simp add: auth_complete_def Let_def assignVerifiedRole_userTokens sendToLogger_userTokens
        split: option.split)

subsection \<open>The guard on the code\<close>

text \<open>
  C10. A request whose \<^verbatim>\<open>code\<close> is missing, empty or otherwise falsy is answered with
  status 400 and the error saying that no authorization code was provided, and the state
  is as it was: no request has been sent to the provider and \<^verbatim>\<open>userTokens\<close> is untouched.
\<close>

theorem auth_discord_without_code:
  assumes "\<not> truthy code"
  shows "auth_discord env code s = (Res 400 (Failure ''No authorization code provided''), s)"
  using assms by (simp add: auth_discord_def)

theorem auth_discord_without_code_witness:
  "\<not> truthy (JString []) \<and> \<not> truthy JUndefined \<and>
   auth_discord
     \<lparr>auth_now = 0, post_token = \<lambda>c. FetchError ''unreachable'',
      get_users_me = \<lambda>h. FetchError ''unreachable'',
      put_member_role = \<lambda>u. FetchError ''unreachable'', WEBHOOK_URL = None,
      post_webhook = \<lambda>u. FetchError ''unreachable''\<rparr>
     (JString []) \<lparr>userTokens = [], requests = []\<rparr> =
   (Res 400 (Failure ''No authorization code provided''), \<lparr>userTokens = [], requests = []\<rparr>) \<and>
   auth_discord
     \<lparr>auth_now = 0, post_token = \<lambda>c. FetchError ''unreachable'',
      get_users_me = \<lambda>h. FetchError ''unreachable'',
      put_member_role = \<lambda>u. FetchError ''unreachable'', WEBHOOK_URL = None,
      post_webhook = \<lambda>u. FetchError ''unreachable''\<rparr>
     JUndefined \<lparr>userTokens = [], requests = []\<rparr> =
   (Res 400 (Failure ''No authorization code provided''), \<lparr>userTokens = [], requests = []\<rparr>)"
  using auth_discord_without_code [of "JString []"] auth_discord_without_code [of JUndefined]
  by simp

subsection \<open>A code that the provider rejects\<close>

text \<open>
  C4. When the provider answers the token exchange with a status that is not ok, the
  handler fails: the response is a failure, \<^verbatim>\<open>userTokens\<close> is as it was, and the token
  request is the only request sent. When the answer is a JSON object, the error of the
  response is the provider's \<^verbatim>\<open>error_description\<close> if it has one, and otherwise its
  \<^verbatim>\<open>error\<close> if it has one.
\<close>

theorem auth_discord_exchange_rejected:
  assumes "truthy code"
    and "post_token env code = Response st statusText body"
    and "\<not> response_ok st"
  shows "userTokens (snd (auth_discord env code s)) = userTokens s \<and>
         requests (snd (auth_discord env code s)) = requests s @ [PostToken code] \<and>
         (\<exists>status m. fst (auth_discord env code s) = Res status (Failure m)) \<and>
         (body = JsonValue tokenData \<and> td_error_description tokenData = Some d \<and> d \<noteq> [] \<longrightarrow>
            fst (auth_discord env code s) = Res 400 (Failure d)) \<and>
         (body = JsonValue tokenData \<and> \<not> truthy_str (td_error_description tokenData) \<and>
            td_error tokenData = Some d \<and> d \<noteq> [] \<longrightarrow>
            fst (auth_discord env code s) = Res 400 (Failure d))"
  using assms
  by (cases body)
     (auto simp: auth_discord_def issue_def internal_error_def or_else_def truthy_str_def
          split: option.splits)

text \<open>A stale code, with an identity already stored: its entry stays as it is.\<close>

theorem auth_discord_exchange_rejected_witness:
  "fst (auth_discord
     \<lparr>auth_now = 0,
      post_token = \<lambda>c. Response 400 ''Bad Request''
        (JsonValue \<lparr>td_access_token = None, td_refresh_token = None, td_expires_in = None,
                    td_error_description = Some ''Invalid code in request'',
                    td_error = Some ''invalid_grant''\<rparr>),
      get_users_me = \<lambda>h. FetchError ''unreachable'',
      put_member_role = \<lambda>u. FetchError ''unreachable'', WEBHOOK_URL = None,
      post_webhook = \<lambda>u. FetchError ''unreachable''\<rparr>
     (JString ''stale'')
     \<lparr>userTokens =
        [(''42'', \<lparr>access_token = ''tok'', refresh_token = None, expires_at = Num 9\<rparr>)],
      requests = []\<rparr>) =
     Res 400 (Failure ''Invalid code in request'') \<and>
   snd (auth_discord
     \<lparr>auth_now = 0,
      post_token = \<lambda>c. Response 400 ''Bad Request''
        (JsonValue \<lparr>td_access_token = None, td_refresh_token = None, td_expires_in = None,
                    td_error_description = Some ''Invalid code in request'',
                    td_error = Some ''invalid_grant''\<rparr>),
      get_users_me = \<lambda>h. FetchError ''unreachable'',
      put_member_role = \<lambda>u. FetchError ''unreachable'', WEBHOOK_URL = None,
      post_webhook = \<lambda>u. FetchError ''unreachable''\<rparr>
     (JString ''stale'')
     \<lparr>userTokens =
        [(''42'', \<lparr>access_token = ''tok'', refresh_token = None, expires_at = Num 9\<rparr>)],
      requests = []\<rparr>) =
     \<lparr>userTokens =
        [(''42'', \<lparr>access_token = ''tok'', refresh_token = None, expires_at = Num 9\<rparr>)],
      requests = [PostToken (JString ''stale'')]\<rparr>"
proof -
  let ?td = "\<lparr>td_access_token = None, td_refresh_token = None, td_expires_in = None,
              td_error_description = Some ''Invalid code in request'',
              td_error = Some ''invalid_grant''\<rparr>"
  let ?env = "\<lparr>auth_now = 0,
      post_token = \<lambda>c. Response 400 ''Bad Request'' (JsonValue ?td),
      get_users_me = \<lambda>h. FetchError ''unreachable'',
      put_member_role = \<lambda>u. FetchError ''unreachable'', WEBHOOK_URL = None,
      post_webhook = \<lambda>u. FetchError ''unreachable''\<rparr>"
  let ?s = "\<lparr>userTokens =
               [(''42'', \<lparr>access_token = ''tok'', refresh_token = None, expires_at = Num 9\<rparr>)],
             requests = []\<rparr>"
  have a: "truthy (JString ''stale'')" by simp
  have b: "post_token ?env (JString ''stale'') = Response 400 ''Bad Request'' (JsonValue ?td)"
    by simp
  have c: "\<not> response_ok 400" by (simp add: response_ok_def)
  obtain r t where rt: "auth_discord ?env (JString ''stale'') ?s = (r, t)"
    by (cases "auth_discord ?env (JString ''stale'') ?s")
  have "server_state.more t = ()" by simp
  then show ?thesis
    using auth_discord_exchange_rejected [OF a b c, of ?s ?td "''Invalid code in request''"] rt
    by (cases t) simp
qed

subsection \<open>What a successful verification returns\<close>

text \<open>
  C5. Whenever the handler answers with a success, the status is 200 and the user of the
  response has the four fields \<^verbatim>\<open>id\<close>, \<^verbatim>\<open>username\<close>, \<^verbatim>\<open>avatar\<close> and \<^verbatim>\<open>email\<close>, each
  taken from the profile that the provider returned; nothing of the token data (access
  token, refresh token, expiry) is put in it.
\<close>

theorem auth_discord_success_summary:
  assumes "fst (auth_discord env code s) = Res status (Verified summary)"
  shows "\<exists>st1 t1 tokenData st2 t2 userData.
           post_token env code = Response st1 t1 (JsonValue tokenData) \<and>
           get_users_me env (''Bearer '' @ js_to_string (td_access_token tokenData)) =
             Response st2 t2 (JsonValue userData) \<and>
           status = 200 \<and>
           summary = \<lparr>s_id = ud_id userData, s_username = ud_username userData,
                      s_avatar = avatar_url userData, s_email = ud_email userData\<rparr>"
  using assms
  by (auto simp: auth_discord_def auth_fetch_user_def internal_error_def Let_def
        auth_complete_response split: if_splits fetched.splits json.splits)

theorem auth_discord_success_summary_witness:
  "fst (auth_discord
     \<lparr>auth_now = 1000,
      post_token = \<lambda>c. Response 200 ''OK''
        (JsonValue \<lparr>td_access_token = Some ''secret-a'', td_refresh_token = Some ''secret-r'',
                    td_expires_in = Some 604800, td_error_description = None, td_error = None\<rparr>),
      get_users_me = \<lambda>h. Response 200 ''OK''
        (JsonValue \<lparr>ud_id = ''42'', ud_username = ''ann'', ud_discriminator = Some ''1234'',
                    ud_email = Some ''ann@example.org'', ud_avatar = Some ''abc'',
                    ud_verified = True\<rparr>),
      put_member_role = \<lambda>u. Response 204 ''No Content'' (PlainText []), WEBHOOK_URL = None,
      post_webhook = \<lambda>u. FetchError ''unreachable''\<rparr>
     (JString ''fresh'') \<lparr>userTokens = [], requests = []\<rparr>) =
   Res 200 (Verified \<lparr>s_id = ''42'', s_username = ''ann'',
                      s_avatar = ''https://cdn.discordapp.com/avatars/42/abc.png'',
                      s_email = Some ''ann@example.org''\<rparr>)"
proof -
  let ?env = "\<lparr>auth_now = 1000,
      post_token = \<lambda>c. Response 200 ''OK''
        (JsonValue \<lparr>td_access_token = Some ''secret-a'', td_refresh_token = Some ''secret-r'',
                    td_expires_in = Some 604800, td_error_description = None, td_error = None\<rparr>),
      get_users_me = \<lambda>h. Response 200 ''OK''
        (JsonValue \<lparr>ud_id = ''42'', ud_username = ''ann'', ud_discriminator = Some ''1234'',
                    ud_email = Some ''ann@example.org'', ud_avatar = Some ''abc'',
                    ud_verified = True\<rparr>),
      put_member_role = \<lambda>u. Response 204 ''No Content'' (PlainText []), WEBHOOK_URL = None,
      post_webhook = \<lambda>u. FetchError ''unreachable''\<rparr>"
  let ?s = "\<lparr>userTokens = [], requests = []\<rparr>"
  obtain status body where r: "fst (auth_discord ?env (JString ''fresh'') ?s) = Res status body"
    by (cases "fst (auth_discord ?env (JString ''fresh'') ?s)")
  have "\<exists>summary. body = Verified summary"
    using r by (auto simp: auth_discord_def auth_fetch_user_def response_ok_def Let_def
          auth_complete_response)
  then obtain summary where "body = Verified summary" ..
  with r have "fst (auth_discord ?env (JString ''fresh'') ?s) = Res status (Verified summary)"
    by simp
  from auth_discord_success_summary [OF this] r \<open>body = Verified summary\<close> show ?thesis
    by (simp add: avatar_url_def truthy_str_def js_to_string_def)
qed

subsection \<open>The detached tasks\<close>

text \<open>
  C7. When the token exchange and the profile request both succeed, the response is the
  success with the summary of the profile whatever the gateway answers to the role request
  and whatever becomes of the webhook: a rejected role assignment raises nothing to the
  caller, and \<^verbatim>\<open>userTokens\<close> ends up the same too.
\<close>

theorem auth_discord_role_failure_invisible:
  assumes "truthy code"
    and "post_token env code = Response st1 t1 (JsonValue tokenData)"
    and "response_ok st1"
    and "get_users_me env (''Bearer '' @ js_to_string (td_access_token tokenData)) =
           Response st2 t2 (JsonValue userData)"
    and "response_ok st2"
  shows "fst (auth_discord (env\<lparr>put_member_role := role, post_webhook := hook\<rparr>) code s) =
           Res 200 (Verified \<lparr>s_id = ud_id userData, s_username = ud_username userData,
                              s_avatar = avatar_url userData, s_email = ud_email userData\<rparr>) \<and>
         userTokens
           (snd (auth_discord (env\<lparr>put_member_role := role, post_webhook := hook\<rparr>) code s)) =
           userTokens (snd (auth_discord env code s))"
  using assms
  by (simp add: auth_discord_def auth_fetch_user_def Let_def auth_complete_response
        auth_complete_userTokens issue_def split: option.split)

text \<open>
  The gateway answers 403 to the role request and the webhook is unreachable:
  \<^verbatim>\<open>assignVerifiedRole\<close> throws, and the response is the success all the same.
\<close>

theorem auth_discord_role_failure_invisible_witness:
  "fst (assignVerifiedRole
     \<lparr>auth_now = 1000,
      post_token = \<lambda>c. Response 200 ''OK''
        (JsonValue \<lparr>td_access_token = Some ''secret-a'', td_refresh_token = Some ''secret-r'',
                    td_expires_in = Some 604800, td_error_description = None, td_error = None\<rparr>),
      get_users_me = \<lambda>h. Response 200 ''OK''
        (JsonValue \<lparr>ud_id = ''42'', ud_username = ''ann'', ud_discriminator = Some ''1234'',
                    ud_email = None, ud_avatar = Some ''abc'', ud_verified = True\<rparr>),
      put_member_role =
        \<lambda>u. Response 403 ''Forbidden'' (JsonMessage (Some ''Missing Permissions'')),
      WEBHOOK_URL = Some ''https://hooks.example/1'',
      post_webhook = \<lambda>u. FetchError ''connect ECONNREFUSED''\<rparr>
     ''42'' \<lparr>userTokens = [], requests = []\<rparr>) = Inl ''Bot lacks permission to assign roles'' \<and>
   fst (auth_discord
     \<lparr>auth_now = 1000,
      post_token = \<lambda>c. Response 200 ''OK''
        (JsonValue \<lparr>td_access_token = Some ''secret-a'', td_refresh_token = Some ''secret-r'',
                    td_expires_in = Some 604800, td_error_description = None, td_error = None\<rparr>),
      get_users_me = \<lambda>h. Response 200 ''OK''
        (JsonValue \<lparr>ud_id = ''42'', ud_username = ''ann'', ud_discriminator = Some ''1234'',
                    ud_email = None, ud_avatar = Some ''abc'', ud_verified = True\<rparr>),
      put_member_role =
        \<lambda>u. Response 403 ''Forbidden'' (JsonMessage (Some ''Missing Permissions'')),
      WEBHOOK_URL = Some ''https://hooks.example/1'',
      post_webhook = \<lambda>u. FetchError ''connect ECONNREFUSED''\<rparr>
     (JString ''fresh'') \<lparr>userTokens = [], requests = []\<rparr>) =
   Res 200 (Verified \<lparr>s_id = ''42'', s_username = ''ann'',
                      s_avatar = ''https://cdn.discordapp.com/avatars/42/abc.png'',
                      s_email = None\<rparr>)"
proof -
  let ?td = "\<lparr>td_access_token = Some ''secret-a'', td_refresh_token = Some ''secret-r'',
              td_expires_in = Some 604800, td_error_description = None, td_error = None\<rparr>"
  let ?ud = "\<lparr>ud_id = ''42'', ud_username = ''ann'', ud_discriminator = Some ''1234'',
              ud_email = None, ud_avatar = Some ''abc'', ud_verified = True\<rparr>"
  let ?role = "\<lambda>u::string. Response 403 ''Forbidden'' (JsonMessage (Some ''Missing Permissions''))"
  let ?hook = "\<lambda>u::user. FetchError ''connect ECONNREFUSED'' :: error_body fetched"
  let ?env = "\<lparr>auth_now = 1000,
      post_token = \<lambda>c. Response 200 ''OK'' (JsonValue ?td),
      get_users_me = \<lambda>h. Response 200 ''OK'' (JsonValue ?ud),
      put_member_role = ?role,
      WEBHOOK_URL = Some ''https://hooks.example/1'',
      post_webhook = ?hook\<rparr>"
  have a: "truthy (JString ''fresh'')" by simp
  have b: "post_token ?env (JString ''fresh'') = Response 200 ''OK'' (JsonValue ?td)" by simp
  have c: "response_ok 200" by (simp add: response_ok_def)
  have d: "get_users_me ?env (''Bearer '' @ js_to_string (td_access_token ?td)) =
             Response 200 ''OK'' (JsonValue ?ud)" by simp
  have e: "fst (assignVerifiedRole ?env ''42'' \<lparr>userTokens = [], requests = []\<rparr>) =
             Inl ''Bot lacks permission to assign roles''"
    by (simp add: assignVerifiedRole_def role_error_message_def response_ok_def)
  show ?thesis
    using auth_discord_role_failure_invisible [OF a b c d c, where role = ?role and hook = ?hook
        and s = "\<lparr>userTokens = [], requests = []\<rparr>"] e
    by (simp add: avatar_url_def truthy_str_def js_to_string_def)
qed

end
